theory Spec2Isabelle
  imports Main "HOL-Library.Sublist" "HOL-Library.Word"
begin

section \<open>The weather tools of \<^verbatim>\<open>weather.py\<close>\<close>

text \<open>
  \<^verbatim>\<open>weather.py\<close> registers two tools, \<^verbatim>\<open>get_alerts\<close> and \<^verbatim>\<open>get_forecast\<close>. Each
  fetches JSON from the National Weather Service with \<^verbatim>\<open>make_nws_request\<close> and turns
  it into text. The embedding below follows the Python line by line: a value decoded
  from JSON is a \<open>pyval\<close>, an exception is the left summand of a result, and the
  network is a function giving the outcome of each GET.
\<close>

subsection \<open>Python values\<close>

text \<open>
  What \<^verbatim>\<open>response.json()\<close> can return, and Python's \<^verbatim>\<open>None\<close>.
  \<^item> A \<^verbatim>\<open>str\<close> is held as the bytes of its UTF-8 encoding: concatenation, equality,
    emptiness and substring search agree with Python's on code points, and one
    character of the \<^verbatim>\<open>str\<close> is one UTF-8 sequence (\<open>utf8_chars\<close> below).
  \<^item> A \<^verbatim>\<open>float\<close> is its 64 bits (IEEE 754 binary64).
  \<^item> A \<^verbatim>\<open>dict\<close> is the list of its items in insertion order; its keys are strings
    (JSON object keys) and, as in every Python dict, distinct.
\<close>

datatype pyval =
    PNone
  | PBool bool
  | PInt int
  | PFloat "64 word"
  | PStr string
  | PList "pyval list"
  | PDict "(string \<times> pyval) list"

text \<open>The exceptions that the subscripts, attribute accesses and loops of the file can raise.\<close>

datatype py_error =
    KeyError string
      \<comment> \<open>\<^verbatim>\<open>d[k]\<close> on a dict without the key \<open>k\<close>\<close>
  | TypeError
      \<comment> \<open>subscripting, iterating or searching a value that does not support it\<close>
  | AttributeError
      \<comment> \<open>\<^verbatim>\<open>x.get\<close> on a value that is not a dict\<close>
  | DictSliceError
      \<comment> \<open>\<^verbatim>\<open>d[:5]\<close> on a dict: a TypeError (unhashable slice) before Python 3.12, a KeyError from 3.12\<close>

definition py_bind :: "py_error + 'a \<Rightarrow> ('a \<Rightarrow> py_error + 'b) \<Rightarrow> py_error + 'b" where
  "py_bind m f = (case m of Inl e \<Rightarrow> Inl e | Inr v \<Rightarrow> f v)"

text \<open>Truth value testing (\<^verbatim>\<open>not x\<close>, \<^verbatim>\<open>if x\<close>): \<^verbatim>\<open>None\<close>, \<^verbatim>\<open>False\<close>, zero and empty
  containers are false. The two zeros of a float are \<open>+0.0\<close> and \<open>-0.0\<close>.\<close>

fun py_truthy :: "pyval \<Rightarrow> bool" where
  "py_truthy PNone = False"
| "py_truthy (PBool b) = b"
| "py_truthy (PInt i) = (i \<noteq> 0)"
| "py_truthy (PFloat w) = (w \<noteq> 0 \<and> w \<noteq> 0x8000000000000000)"
| "py_truthy (PStr s) = (s \<noteq> [])"
| "py_truthy (PList xs) = (xs \<noteq> [])"
| "py_truthy (PDict kvs) = (kvs \<noteq> [])"

text \<open>\<^verbatim>\<open>x[k]\<close> with a string key \<open>k\<close>.\<close>

fun py_getitem :: "pyval \<Rightarrow> string \<Rightarrow> py_error + pyval" where
  "py_getitem (PDict kvs) k = (case map_of kvs k of None \<Rightarrow> Inl (KeyError k) | Some v \<Rightarrow> Inr v)"
| "py_getitem _ k = Inl TypeError"

text \<open>\<^verbatim>\<open>x.get(k, default)\<close>: only a dict has the method.\<close>

fun py_get :: "pyval \<Rightarrow> string \<Rightarrow> pyval \<Rightarrow> py_error + pyval" where
  "py_get (PDict kvs) k d = Inr (case map_of kvs k of None \<Rightarrow> d | Some v \<Rightarrow> v)"
| "py_get _ k d = Inl AttributeError"

text \<open>\<^verbatim>\<open>k in x\<close> with a string \<open>k\<close>: a key of a dict, an element of a list, a substring
  of a str.\<close>

fun py_contains :: "pyval \<Rightarrow> string \<Rightarrow> py_error + bool" where
  "py_contains (PDict kvs) k = Inr (map_of kvs k \<noteq> None)"
| "py_contains (PList xs) k = Inr (PStr k \<in> set xs)"
| "py_contains (PStr s) k = Inr (sublist k s)"
| "py_contains _ k = Inl TypeError"

text \<open>The characters of a str: a byte that is not a continuation byte (\<open>0x80\<close> to \<open>0xBF\<close>)
  starts a new UTF-8 sequence.\<close>

definition is_continuation :: "char \<Rightarrow> bool" where
  "is_continuation c = (128 \<le> (of_char c :: nat) \<and> (of_char c :: nat) < 192)"

function utf8_chars :: "string \<Rightarrow> string list" where
  "utf8_chars [] = []"
| "utf8_chars (c # cs) =
     (c # takeWhile is_continuation cs) # utf8_chars (dropWhile is_continuation cs)"
  by pat_completeness auto
termination
  by (relation "measure length") (auto simp: length_dropWhile_le le_imp_less_Suc)

text \<open>\<^verbatim>\<open>for x in v\<close>: the elements of a list, the keys of a dict, the characters of a str.\<close>

fun py_iter :: "pyval \<Rightarrow> py_error + pyval list" where
  "py_iter (PList xs) = Inr xs"
| "py_iter (PDict kvs) = Inr (map (\<lambda>kv. PStr (fst kv)) kvs)"
| "py_iter (PStr s) = Inr (map PStr (utf8_chars s))"
| "py_iter _ = Inl TypeError"

text \<open>\<^verbatim>\<open>v[:n]\<close>.\<close>

fun py_getslice :: "pyval \<Rightarrow> nat \<Rightarrow> py_error + pyval" where
  "py_getslice (PList xs) n = Inr (PList (take n xs))"
| "py_getslice (PStr s) n = Inr (PStr (concat (take n (utf8_chars s))))"
| "py_getslice (PDict kvs) n = Inl DictSliceError"
| "py_getslice _ n = Inl TypeError"

subsection \<open>Formatting a value in an f-string\<close>

text \<open>
  \<^verbatim>\<open>f'{x}'\<close> is \<^verbatim>\<open>str(x)\<close> for the values here: a str is itself, an int is its decimal
  digits, \<^verbatim>\<open>None\<close>, \<^verbatim>\<open>True\<close> and \<^verbatim>\<open>False\<close> are their names. For a float, a list and
  a dict, \<^verbatim>\<open>str\<close> is the interpreter's \<^verbatim>\<open>repr\<close> (shortest round-trip float digits,
  quoting and escaping of nested strings), which is not code of this file: it is
  the parameter \<open>repr\<close> of every function that formats.
\<close>

function str_nat :: "nat \<Rightarrow> string" where
  "str_nat n = (if n < 10 then [char_of (48 + n)] else str_nat (n div 10) @ [char_of (48 + n mod 10)])"
  by pat_completeness auto
termination
  by (relation "measure id") auto

declare str_nat.simps [simp del]

definition str_int :: "int \<Rightarrow> string" where
  "str_int i = (if i < 0 then ''-'' @ str_nat (nat (- i)) else str_nat (nat i))"

fun py_str :: "(pyval \<Rightarrow> string) \<Rightarrow> pyval \<Rightarrow> string" where
  "py_str repr (PStr s) = s"
| "py_str repr PNone = ''None''"
| "py_str repr (PBool b) = (if b then ''True'' else ''False'')"
| "py_str repr (PInt i) = str_int i"
| "py_str repr v = repr v"

text \<open>\<^verbatim>\<open>sep.join(xs)\<close>.\<close>

fun join :: "string \<Rightarrow> string list \<Rightarrow> string" where
  "join sep [] = []"
| "join sep [x] = x"
| "join sep (x # y # ys) = x @ sep @ join sep (y # ys)"

subsection \<open>The HTTP fetcher\<close>

text \<open>
  What \<^verbatim>\<open>client.get(url, headers=headers, timeout=30.0)\<close> can do: raise (the request
  never gets a response), or return a response with a status code and a body. The
  body is held as the result of decoding it as JSON, \<open>None\<close> when
  \<^verbatim>\<open>response.json()\<close> raises. The fixed headers (\<^verbatim>\<open>User-Agent: weather-app/1.0\<close>,
  \<^verbatim>\<open>Accept: application/geo+json\<close>) and the timeout of 30 seconds are arguments of
  that GET: the network answers them, and a timeout is one of the ways to raise.
\<close>

datatype request_failure = DnsFailure | ConnectFailure | Timeout | OtherFailure

datatype http_outcome =
    RequestFailed request_failure
  | Responded nat "pyval option"

text \<open>The network seen by one invocation of a tool: the outcome of its \<open>k\<close>-th GET
  (from 0) as a function of the URL argument.\<close>

type_synonym network = "nat \<Rightarrow> pyval \<Rightarrow> http_outcome"

definition NWS_API_BASE :: string where
  "NWS_API_BASE = ''https://api.weather.gov''"

text \<open>
  \<^verbatim>\<open>
  try:
    response = await client.get(url, headers=headers, timeout=30.0)
    response.raise_for_status()
    return response.json()
  except Exception:
    return None
  \<close>
  \<^verbatim>\<open>raise_for_status\<close> raises unless the status is 2xx. The result is a Python value:
  failure is \<^verbatim>\<open>None\<close>, which is also what a body \<^verbatim>\<open>null\<close> decodes to.
\<close>

definition make_nws_request :: "(pyval \<Rightarrow> http_outcome) \<Rightarrow> pyval \<Rightarrow> pyval" where
  "make_nws_request client_get url =
     (case client_get url of
        RequestFailed _ \<Rightarrow> PNone
      | Responded status body \<Rightarrow>
          if 200 \<le> status \<and> status < 300
          then (case body of None \<Rightarrow> PNone | Some v \<Rightarrow> v)
          else PNone)"

subsection \<open>The alert formatter\<close>

definition format_alert :: "(pyval \<Rightarrow> string) \<Rightarrow> pyval \<Rightarrow> py_error + string" where
  "format_alert repr feature =
     py_bind (py_get feature ''properties'' (PDict [])) (\<lambda>properties.
     py_bind (py_get properties ''event'' (PStr ''Unknown Event'')) (\<lambda>event.
     py_bind (py_get properties ''areaDesc'' (PStr ''Unknown Area'')) (\<lambda>area.
     py_bind (py_get properties ''severity'' (PStr ''Unknown Severity'')) (\<lambda>severity.
     py_bind (py_get properties ''description'' (PStr ''No description available.'')) (\<lambda>description.
     py_bind (py_get properties ''instruction'' (PStr ''No specific instructions provided.'')) (\<lambda>instructions.
     Inr (''**'' @ py_str repr event @ ''**\<newline>''
          @ ''*Area:* '' @ py_str repr area @ ''\<newline>\<newline>''
          @ ''*Severity:* '' @ py_str repr severity @ ''\<newline>''
          @ py_str repr description @ ''\<newline>\<newline>''
          @ ''**Instructions:** '' @ py_str repr instructions)))))))"

subsection \<open>The tool \<^verbatim>\<open>get_alerts\<close>\<close>

text \<open>The list comprehension \<^verbatim>\<open>[f(x) for x in xs]\<close>: the first exception ends it.\<close>

fun comprehension :: "('a \<Rightarrow> py_error + 'b) \<Rightarrow> 'a list \<Rightarrow> py_error + 'b list" where
  "comprehension f [] = Inr []"
| "comprehension f (x # xs) =
     (case f x of
        Inl e \<Rightarrow> Inl e
      | Inr y \<Rightarrow> (case comprehension f xs of Inl e \<Rightarrow> Inl e | Inr ys \<Rightarrow> Inr (y # ys)))"

text \<open>The local \<^verbatim>\<open>url\<close> of \<^verbatim>\<open>get_alerts\<close>.\<close>

definition alerts_url :: "string \<Rightarrow> string" where
  "alerts_url state = NWS_API_BASE @ ''/alerts/active/area/'' @ state"

definition get_alerts :: "(pyval \<Rightarrow> string) \<Rightarrow> network \<Rightarrow> string \<Rightarrow> py_error + string" where
  "get_alerts repr net state =
     (let url = alerts_url state;
          data = make_nws_request (net 0) (PStr url)
      in if \<not> py_truthy data then Inr ''Unable to fetch alerts or no alerts found.''
         else py_bind (py_contains data ''features'') (\<lambda>present.
           if \<not> present then Inr ''Unable to fetch alerts or no alerts found.''
           else py_bind (py_getitem data ''features'') (\<lambda>features.
             if \<not> py_truthy features then Inr ''No active alerts for this state.''
             else py_bind (py_getitem data ''features'') (\<lambda>features'.
                  py_bind (py_iter features') (\<lambda>fs.
                  py_bind (comprehension (format_alert repr) fs) (\<lambda>alerts.
                  Inr (join ''\<newline>---\<newline>'' alerts)))))))"

subsection \<open>The tool \<^verbatim>\<open>get_forecast\<close>\<close>

text \<open>
  The body of the loop up to \<^verbatim>\<open>forecasts.append(forecast)\<close> (lines 106 to 115), which
  the source does not name: the six subscripts in the order they are evaluated, then
  the text of one period. The degree sign U+00B0 is the bytes \<open>0xC2 0xB0\<close>.
\<close>

definition format_period :: "(pyval \<Rightarrow> string) \<Rightarrow> pyval \<Rightarrow> py_error + string" where
  "format_period repr period =
     py_bind (py_getitem period ''name'') (\<lambda>name.
     py_bind (py_getitem period ''temperature'') (\<lambda>temperature.
     py_bind (py_getitem period ''temperatureUnit'') (\<lambda>temperatureUnit.
     (let temp = py_str repr temperature @ [CHR 0xC2, CHR 0xB0] @ py_str repr temperatureUnit in
     py_bind (py_getitem period ''windSpeed'') (\<lambda>windSpeed.
     py_bind (py_getitem period ''windDirection'') (\<lambda>windDirection.
     (let wind = py_str repr windSpeed @ '' '' @ py_str repr windDirection in
     py_bind (py_getitem period ''detailedForecast'') (\<lambda>foreast_text.
     Inr (''**'' @ py_str repr name @ ''**\<newline>''
          @ ''- Temperature: '' @ temp @ ''\<newline>''
          @ ''- Wind: '' @ wind @ ''\<newline>''
          @ ''- Forecast: '' @ py_str repr foreast_text @ ''\<newline>'')))))))))"

text \<open>
  \<^verbatim>\<open>
  for period in periods[:5]:
    ...
    forecasts.append(forecast)
    return "\n---\n".join(forecasts)
  \<close>
  The \<^verbatim>\<open>return\<close> is inside the body of the loop, so an iteration never hands over
  to the next one. When there is nothing to iterate, the function runs off its end
  and returns \<^verbatim>\<open>None\<close>.
\<close>

fun forecast_loop :: "(pyval \<Rightarrow> string) \<Rightarrow> pyval list \<Rightarrow> string list \<Rightarrow> py_error + pyval" where
  "forecast_loop repr [] forecasts = Inr PNone"
| "forecast_loop repr (period # rest) forecasts =
     py_bind (format_period repr period) (\<lambda>forecast.
       Inr (PStr (join ''\<newline>---\<newline>'' (forecasts @ [forecast]))))"

text \<open>The local \<^verbatim>\<open>points_url\<close> of \<^verbatim>\<open>get_forecast\<close>.\<close>

definition points_url :: "(pyval \<Rightarrow> string) \<Rightarrow> 64 word \<Rightarrow> 64 word \<Rightarrow> string" where
  "points_url repr latitude longitude =
     NWS_API_BASE @ ''/points/'' @ py_str repr (PFloat latitude) @ '','' @ py_str repr (PFloat longitude)"

definition get_forecast ::
  "(pyval \<Rightarrow> string) \<Rightarrow> network \<Rightarrow> 64 word \<Rightarrow> 64 word \<Rightarrow> py_error + pyval" where
  "get_forecast repr net latitude longitude =
     (let points_data = make_nws_request (net 0) (PStr (points_url repr latitude longitude))
      in if \<not> py_truthy points_data
         then Inr (PStr ''Unable to fetch forecast data for this location.'')
         else py_bind (py_getitem points_data ''properties'') (\<lambda>points_properties.
              py_bind (py_getitem points_properties ''forecast'') (\<lambda>forecast_url.
              (let forecast_data = make_nws_request (net 1) forecast_url
               in if \<not> py_truthy forecast_data
                  then Inr (PStr ''Unable to fetch detailed forecast.'')
                  else py_bind (py_getitem forecast_data ''properties'') (\<lambda>forecast_properties.
                       py_bind (py_getitem forecast_properties ''periods'') (\<lambda>periods.
                       py_bind (py_getslice periods 5) (\<lambda>first_periods.
                       py_bind (py_iter first_periods) (\<lambda>ps.
                       forecast_loop repr ps []))))))))"

subsection \<open>Vocabulary of the properties\<close>


text \<open>The value is a JSON object (a dict).\<close>

definition is_object :: "pyval \<Rightarrow> bool" where
  "is_object v = (case v of PDict kvs \<Rightarrow> True | _ \<Rightarrow> False)"

text \<open>An alert feature of the data model: an object whose \<^verbatim>\<open>properties\<close> is absent or is
  an object.\<close>

definition alert_feature :: "pyval \<Rightarrow> bool" where
  "alert_feature f =
     (case f of
        PDict kvs \<Rightarrow> (case map_of kvs ''properties'' of None \<Rightarrow> True | Some v \<Rightarrow> is_object v)
      | _ \<Rightarrow> False)"


text \<open>
  The per-period template as the specification prints it (section 4.4, step 7), filled
  with the texts of the six fields:
  \<^verbatim>\<open>
  **<name>**
  - Temperature: <temperature>(degree sign)<temperatureUnit>
  - Wind: <windSpeed> <windDirection>
  - Forecast: <detailedForecast>
  \<close>
\<close>

definition period_template ::
  "string \<Rightarrow> string \<Rightarrow> string \<Rightarrow> string \<Rightarrow> string \<Rightarrow> string \<Rightarrow> string" where
  "period_template name temperature temperatureUnit windSpeed windDirection detailedForecast =
     ''**'' @ name @ ''**\<newline>''
     @ ''- Temperature: '' @ temperature @ [CHR 0xC2, CHR 0xB0] @ temperatureUnit @ ''\<newline>''
     @ ''- Wind: '' @ windSpeed @ '' '' @ windDirection @ ''\<newline>''
     @ ''- Forecast: '' @ detailedForecast"

text \<open>The failures of the specification's fetcher (section 4.1): a transport error, a
  status that is not 2xx, a body that does not decode.\<close>

definition fetch_failed :: "http_outcome \<Rightarrow> bool" where
  "fetch_failed out =
     (case out of
        RequestFailed _ \<Rightarrow> True
      | Responded status body \<Rightarrow> status < 200 \<or> 300 \<le> status \<or> body = None)"

subsection \<open>Concrete inputs\<close>

text \<open>A network that answers the first GET of an invocation with \<open>first\<close> and every
  later one with \<open>later\<close>, whatever the URL.\<close>

definition scripted :: "http_outcome \<Rightarrow> http_outcome \<Rightarrow> network" where
  "scripted first later k url = (if k = 0 then first else later)"

text \<open>The interpreter's \<^verbatim>\<open>repr\<close> at the float \<open>+0.0\<close> (all 64 bits zero), the only value
  that the examples format with it (as latitude and longitude).\<close>

definition sample_repr :: "pyval \<Rightarrow> string" where
  "sample_repr v = ''0.0''"

definition sample_point :: pyval where
  "sample_point =
     PDict [(''properties'',
       PDict [(''forecast'', PStr ''https://api.weather.gov/gridpoints/TOP/31,80/forecast'')])]"

definition sample_tonight :: pyval where
  "sample_tonight =
     PDict [(''name'', PStr ''Tonight''), (''temperature'', PInt 72),
            (''temperatureUnit'', PStr ''F''), (''windSpeed'', PStr ''5 mph''),
            (''windDirection'', PStr ''NW''), (''detailedForecast'', PStr ''Clear.'')]"

definition sample_friday :: pyval where
  "sample_friday =
     PDict [(''name'', PStr ''Friday''), (''temperature'', PInt 85),
            (''temperatureUnit'', PStr ''F''), (''windSpeed'', PStr ''10 mph''),
            (''windDirection'', PStr ''S''), (''detailedForecast'', PStr ''Sunny.'')]"

definition sample_forecast :: "pyval list \<Rightarrow> pyval" where
  "sample_forecast periods = PDict [(''properties'', PDict [(''periods'', PList periods)])]"

definition sample_flood :: pyval where
  "sample_flood = PDict [(''properties'', PDict [(''event'', PStr ''Flood Warning'')])]"

section \<open>Properties\<close>

lemma py_bind_Inr [simp]: "py_bind (Inr v) f = f v"
  by (simp add: py_bind_def)

lemma py_bind_Inl [simp]: "py_bind (Inl e) f = Inl e"
  by (simp add: py_bind_def)

lemma scripted_first [simp]: "scripted first later 0 url = first"
  by (simp add: scripted_def)

lemma scripted_later [simp]: "scripted first later (Suc 0) url = later"
  by (simp add: scripted_def)

subsection \<open>The fetcher\<close>

lemma make_nws_request_failed:
  "fetch_failed (client_get url) \<Longrightarrow> make_nws_request client_get url = PNone"
  by (auto simp: fetch_failed_def make_nws_request_def split: http_outcome.splits)

lemma make_nws_request_ok [simp]:
  "make_nws_request (\<lambda>u. Responded 200 (Some v)) url = v"
  by (simp add: make_nws_request_def)

subsection \<open>\<^verbatim>\<open>get_alerts\<close>\<close>

text \<open>
  Claim C3. When the fetch of the alerts URL gives the absent result (\<^verbatim>\<open>None\<close>), or
  gives a JSON object that has no \<^verbatim>\<open>features\<close> field, \<^verbatim>\<open>get_alerts\<close> returns exactly
  the string \<^verbatim>\<open>Unable to fetch alerts or no alerts found.\<close>
\<close>

theorem get_alerts_unable:
  assumes "make_nws_request (net 0) (PStr (alerts_url state)) = data"
    and "data = PNone \<or> (\<exists>kvs. data = PDict kvs \<and> map_of kvs ''features'' = None)"
  shows "get_alerts repr net state = Inr ''Unable to fetch alerts or no alerts found.''"
proof (cases "py_truthy data")
  case False
  with assms(1) show ?thesis
    by (simp add: get_alerts_def)
next
  case True
  with assms(2) obtain kvs where "data = PDict kvs" and "map_of kvs ''features'' = None"
    by auto
  with True assms(1) show ?thesis
    by (simp add: get_alerts_def)
qed

text \<open>The response \<^verbatim>\<open>{}\<close> to \<^verbatim>\<open>get_alerts("ZZ")\<close>, and a request that times out.\<close>

theorem get_alerts_unable_witness:
  "make_nws_request (scripted (Responded 200 (Some (PDict []))) (RequestFailed Timeout) 0)
       (PStr (alerts_url ''ZZ'')) = PDict []
   \<and> map_of ([] :: (string \<times> pyval) list) ''features'' = None
   \<and> get_alerts sample_repr (scripted (Responded 200 (Some (PDict []))) (RequestFailed Timeout)) ''ZZ''
       = Inr ''Unable to fetch alerts or no alerts found.''
   \<and> make_nws_request (scripted (RequestFailed Timeout) (RequestFailed Timeout) 0)
       (PStr (alerts_url ''ZZ'')) = PNone
   \<and> get_alerts sample_repr (scripted (RequestFailed Timeout) (RequestFailed Timeout)) ''ZZ''
       = Inr ''Unable to fetch alerts or no alerts found.''"
proof -
  let ?net1 = "scripted (Responded 200 (Some (PDict []))) (RequestFailed Timeout)"
  let ?net2 = "scripted (RequestFailed Timeout) (RequestFailed Timeout)"
  have h1: "make_nws_request (?net1 0) (PStr (alerts_url ''ZZ'')) = PDict []"
    by (simp add: make_nws_request_def)
  have h2: "PDict [] = PNone \<or> (\<exists>kvs. PDict [] = PDict kvs \<and> map_of kvs ''features'' = None)"
    by simp
  have h3: "make_nws_request (?net2 0) (PStr (alerts_url ''ZZ'')) = PNone"
    by (simp add: make_nws_request_def)
  have h4: "PNone = PNone \<or> (\<exists>kvs. PNone = PDict kvs \<and> map_of kvs ''features'' = None)"
    by simp
  from get_alerts_unable [where net = ?net1 and repr = sample_repr, OF h1 h2]
    get_alerts_unable [where net = ?net2 and repr = sample_repr, OF h3 h4] h1 h3
  show ?thesis by simp
qed

text \<open>
  Claim C4. When the fetched JSON object has a \<^verbatim>\<open>features\<close> field that is an empty
  sequence, \<^verbatim>\<open>get_alerts\<close> returns exactly the string
  \<^verbatim>\<open>No active alerts for this state.\<close>
\<close>

theorem get_alerts_no_active:
  assumes "make_nws_request (net 0) (PStr (alerts_url state)) = PDict kvs"
    and "map_of kvs ''features'' = Some (PList [])"
  shows "get_alerts repr net state = Inr ''No active alerts for this state.''"
proof -
  from assms(2) have "kvs \<noteq> []"
    by auto
  with assms show ?thesis
    by (simp add: get_alerts_def)
qed

text \<open>The response \<^verbatim>\<open>{"features": []}\<close> to \<^verbatim>\<open>get_alerts("CA")\<close>.\<close>

theorem get_alerts_no_active_witness:
  "make_nws_request
       (scripted (Responded 200 (Some (PDict [(''features'', PList [])]))) (RequestFailed Timeout) 0)
       (PStr (alerts_url ''CA'')) = PDict [(''features'', PList [])]
   \<and> map_of [(''features'', PList [])] ''features'' = Some (PList [])
   \<and> get_alerts sample_repr
        (scripted (Responded 200 (Some (PDict [(''features'', PList [])]))) (RequestFailed Timeout))
        ''CA''
       = Inr ''No active alerts for this state.''"
proof -
  let ?net = "scripted (Responded 200 (Some (PDict [(''features'', PList [])]))) (RequestFailed Timeout)"
  have h1: "make_nws_request (?net 0) (PStr (alerts_url ''CA'')) = PDict [(''features'', PList [])]"
    by (simp add: make_nws_request_def)
  have h2: "map_of [(''features'', PList [])] ''features'' = Some (PList [])"
    by simp
  from get_alerts_no_active [where net = ?net and repr = sample_repr, OF h1 h2] h1 h2
  show ?thesis by simp
qed

lemma comprehension_all_Inr:
  "map f xs = map Inr ys \<Longrightarrow> comprehension f xs = Inr ys"
proof (induction xs arbitrary: ys)
  case Nil
  then show ?case by simp
next
  case (Cons x xs)
  from Cons.prems obtain y ys' where ys: "ys = y # ys'" and y: "f x = Inr y"
    and rest: "map f xs = map Inr ys'"
    by (cases ys) auto
  from Cons.IH [OF rest] y ys show ?case
    by simp
qed

lemma alert_feature_formats:
  assumes "alert_feature f"
  shows "\<exists>a. format_alert repr f = Inr a"
proof -
  from assms obtain kvs where f: "f = PDict kvs"
    by (cases f) (auto simp: alert_feature_def)
  with assms obtain props where "py_get f ''properties'' (PDict []) = Inr (PDict props)"
    by (cases "map_of kvs ''properties''")
       (auto simp: alert_feature_def is_object_def split: pyval.splits)
  then show ?thesis
    by (simp add: format_alert_def)
qed

lemma alert_features_format:
  "list_all alert_feature fs \<Longrightarrow> \<exists>alerts. map (format_alert repr) fs = map Inr alerts"
proof (induction fs)
  case Nil
  then show ?case by simp
next
  case (Cons f fs)
  then obtain alerts where rest: "map (format_alert repr) fs = map Inr alerts"
    by auto
  from Cons.prems obtain a where "format_alert repr f = Inr a"
    using alert_feature_formats by auto
  with rest have "map (format_alert repr) (f # fs) = map Inr (a # alerts)"
    by simp
  then show ?case
    by blast
qed

text \<open>
  Claim C2, as the code has it. When the fetched JSON object has a \<^verbatim>\<open>features\<close> field
  that is a non-empty sequence \<open>f1, ..., fn\<close> of alert features (objects whose
  \<^verbatim>\<open>properties\<close> is absent or an object), \<^verbatim>\<open>format_alert\<close> gives a string \<open>ai\<close> on
  every \<open>fi\<close>, and \<^verbatim>\<open>get_alerts\<close> returns \<open>a1 + sep + ... + sep + an\<close> with the
  separator \<^verbatim>\<open>"\n---\n"\<close>: every feature is formatted, in order, and the texts are
  joined.
\<close>

theorem get_alerts_joins_all:
  assumes "make_nws_request (net 0) (PStr (alerts_url state)) = PDict kvs"
    and "map_of kvs ''features'' = Some (PList fs)"
    and "fs \<noteq> []"
    and "list_all alert_feature fs"
  shows "\<exists>alerts. map (format_alert repr) fs = map Inr alerts
           \<and> get_alerts repr net state = Inr (join ''\<newline>---\<newline>'' alerts)"
proof -
  from assms(4) obtain alerts where alerts: "map (format_alert repr) fs = map Inr alerts"
    using alert_features_format by blast
  then have "comprehension (format_alert repr) fs = Inr alerts"
    by (rule comprehension_all_Inr)
  moreover from assms(2) have "kvs \<noteq> []"
    by auto
  ultimately have "get_alerts repr net state = Inr (join ''\<newline>---\<newline>'' alerts)"
    using assms(1-3) by (simp add: get_alerts_def)
  with alerts show ?thesis
    by blast
qed

text \<open>
  The response \<^verbatim>\<open>{"features": [f1, f2]}\<close> to \<^verbatim>\<open>get_alerts("CA")\<close>, with \<open>f1\<close> the empty
  object and \<open>f2\<close> a flood warning.
\<close>

theorem get_alerts_joins_all_witness:
  "make_nws_request
       (scripted (Responded 200 (Some (PDict [(''features'', PList [PDict [], sample_flood])])))
          (RequestFailed Timeout) 0)
       (PStr (alerts_url ''CA'')) = PDict [(''features'', PList [PDict [], sample_flood])]
   \<and> map_of [(''features'', PList [PDict [], sample_flood])] ''features''
       = Some (PList [PDict [], sample_flood])
   \<and> list_all alert_feature [PDict [], sample_flood]
   \<and> map (format_alert sample_repr) [PDict [], sample_flood]
       = map Inr
           [''**Unknown Event**\<newline>*Area:* Unknown Area\<newline>\<newline>*Severity:* Unknown Severity\<newline>No description available.\<newline>\<newline>**Instructions:** No specific instructions provided.'',
            ''**Flood Warning**\<newline>*Area:* Unknown Area\<newline>\<newline>*Severity:* Unknown Severity\<newline>No description available.\<newline>\<newline>**Instructions:** No specific instructions provided.'']
   \<and> get_alerts sample_repr
         (scripted (Responded 200 (Some (PDict [(''features'', PList [PDict [], sample_flood])])))
            (RequestFailed Timeout))
         ''CA''
       = Inr (''**Unknown Event**\<newline>*Area:* Unknown Area\<newline>\<newline>*Severity:* Unknown Severity\<newline>No description available.\<newline>\<newline>**Instructions:** No specific instructions provided.''
              @ ''\<newline>---\<newline>''
              @ ''**Flood Warning**\<newline>*Area:* Unknown Area\<newline>\<newline>*Severity:* Unknown Severity\<newline>No description available.\<newline>\<newline>**Instructions:** No specific instructions provided.'')"
proof -
  let ?data = "PDict [(''features'', PList [PDict [], sample_flood])]"
  let ?net = "scripted (Responded 200 (Some ?data)) (RequestFailed Timeout)"
  let ?a1 = "''**Unknown Event**\<newline>*Area:* Unknown Area\<newline>\<newline>*Severity:* Unknown Severity\<newline>No description available.\<newline>\<newline>**Instructions:** No specific instructions provided.''"
  let ?a2 = "''**Flood Warning**\<newline>*Area:* Unknown Area\<newline>\<newline>*Severity:* Unknown Severity\<newline>No description available.\<newline>\<newline>**Instructions:** No specific instructions provided.''"
  have h1: "make_nws_request (?net 0) (PStr (alerts_url ''CA'')) = ?data"
    by (simp add: make_nws_request_def)
  have h2: "map_of [(''features'', PList [PDict [], sample_flood])] ''features''
       = Some (PList [PDict [], sample_flood])"
    by simp
  have h3: "[PDict [], sample_flood] \<noteq> []"
    by simp
  have h4: "list_all alert_feature [PDict [], sample_flood]"
    by (simp add: alert_feature_def is_object_def sample_flood_def)
  have fmt: "map (format_alert sample_repr) [PDict [], sample_flood] = map Inr [?a1, ?a2]"
    by (simp add: format_alert_def sample_flood_def)
  from get_alerts_joins_all [where net = ?net and repr = sample_repr, OF h1 h2 h3 h4]
  obtain alerts where a: "map (format_alert sample_repr) [PDict [], sample_flood] = map Inr alerts"
    and g: "get_alerts sample_repr ?net ''CA'' = Inr (join ''\<newline>---\<newline>'' alerts)"
    by blast
  from a fmt have "map Inr alerts = (map Inr [?a1, ?a2] :: (py_error + string) list)"
    by simp
  then have "alerts = [?a1, ?a2]"
    by (auto simp: map_eq_Cons_conv)
  with g have "get_alerts sample_repr ?net ''CA'' = Inr (?a1 @ ''\<newline>---\<newline>'' @ ?a2)"
    by simp
  with h1 h2 h4 fmt show ?thesis
    by simp
qed

text \<open>
  Claim C2 as stated fails: \<^verbatim>\<open>features\<close> is a non-empty sequence in
  \<^verbatim>\<open>{"features": [{}, 5]}\<close> and in \<^verbatim>\<open>{"features": [{"properties": null}]}\<close>, and
  \<^verbatim>\<open>get_alerts\<close> returns no string: the AttributeError of \<^verbatim>\<open>format_alert\<close> leaves the
  list comprehension of line 75 and the handler.
\<close>

theorem get_alerts_malformed_feature:
  "make_nws_request
       (scripted (Responded 200 (Some (PDict [(''features'', PList [PDict [], PInt 5])])))
          (RequestFailed Timeout) 0)
       (PStr (alerts_url ''CA'')) = PDict [(''features'', PList [PDict [], PInt 5])]
   \<and> get_alerts sample_repr
        (scripted (Responded 200 (Some (PDict [(''features'', PList [PDict [], PInt 5])])))
           (RequestFailed Timeout)) ''CA''
       = Inl AttributeError
   \<and> get_alerts sample_repr
        (scripted (Responded 200 (Some (PDict [(''features'', PList [PDict [(''properties'', PNone)]])])))
           (RequestFailed Timeout)) ''CA''
       = Inl AttributeError"
  by (simp add: make_nws_request_def get_alerts_def format_alert_def)

subsection \<open>\<^verbatim>\<open>format_alert\<close>\<close>

text \<open>
  Claim C5, as the code has it. \<^verbatim>\<open>format_alert\<close> is not total over JSON: it calls
  \<^verbatim>\<open>.get\<close> on the feature and on its \<^verbatim>\<open>properties\<close>, so both must be objects. On every
  JSON object whose \<^verbatim>\<open>properties\<close> is absent (then \<open>props\<close> is empty) or is the object
  \<open>props\<close>, it does not fail and returns a non-empty string made of the five sections
  of the template, each filled with the text of its field, or with its placeholder
  when \<open>props\<close> has no such field.
\<close>

theorem format_alert_on_features:
  assumes "map_of kvs ''properties'' = None \<and> props = []
           \<or> map_of kvs ''properties'' = Some (PDict props)"
  shows "\<exists>event area severity description instructions.
     format_alert repr (PDict kvs) =
       Inr (''**'' @ event @ ''**\<newline>*Area:* '' @ area @ ''\<newline>\<newline>*Severity:* '' @ severity
            @ ''\<newline>'' @ description @ ''\<newline>\<newline>**Instructions:** '' @ instructions)
     \<and> ''**'' @ event @ ''**\<newline>*Area:* '' @ area @ ''\<newline>\<newline>*Severity:* '' @ severity
            @ ''\<newline>'' @ description @ ''\<newline>\<newline>**Instructions:** '' @ instructions \<noteq> []
     \<and> event = (case map_of props ''event'' of None \<Rightarrow> ''Unknown Event'' | Some v \<Rightarrow> py_str repr v)
     \<and> area = (case map_of props ''areaDesc'' of None \<Rightarrow> ''Unknown Area'' | Some v \<Rightarrow> py_str repr v)
     \<and> severity =
         (case map_of props ''severity'' of None \<Rightarrow> ''Unknown Severity'' | Some v \<Rightarrow> py_str repr v)
     \<and> description =
         (case map_of props ''description'' of
            None \<Rightarrow> ''No description available.'' | Some v \<Rightarrow> py_str repr v)
     \<and> instructions =
         (case map_of props ''instruction'' of
            None \<Rightarrow> ''No specific instructions provided.'' | Some v \<Rightarrow> py_str repr v)"
proof -
  from assms have "py_get (PDict kvs) ''properties'' (PDict []) = Inr (PDict props)"
    by auto
  then show ?thesis
    by (simp add: format_alert_def split: option.split)
qed

text \<open>A feature without \<^verbatim>\<open>properties\<close>, and one whose \<^verbatim>\<open>properties\<close> has only the event.\<close>

theorem format_alert_on_features_witness:
  "map_of ([] :: (string \<times> pyval) list) ''properties'' = None
   \<and> format_alert sample_repr (PDict [])
      = Inr ''**Unknown Event**\<newline>*Area:* Unknown Area\<newline>\<newline>*Severity:* Unknown Severity\<newline>No description available.\<newline>\<newline>**Instructions:** No specific instructions provided.''
   \<and> map_of [(''properties'', PDict [(''event'', PStr ''Flood Warning'')])] ''properties''
      = Some (PDict [(''event'', PStr ''Flood Warning'')])
   \<and> format_alert sample_repr sample_flood
      = Inr ''**Flood Warning**\<newline>*Area:* Unknown Area\<newline>\<newline>*Severity:* Unknown Severity\<newline>No description available.\<newline>\<newline>**Instructions:** No specific instructions provided.''"
proof -
  have h1: "map_of ([] :: (string \<times> pyval) list) ''properties'' = None
             \<and> ([] :: (string \<times> pyval) list) = []
           \<or> map_of ([] :: (string \<times> pyval) list) ''properties'' = Some (PDict [])"
    by simp
  have h2: "map_of [(''properties'', PDict [(''event'', PStr ''Flood Warning'')])] ''properties'' = None
             \<and> [(''event'', PStr ''Flood Warning'')] = []
           \<or> map_of [(''properties'', PDict [(''event'', PStr ''Flood Warning'')])] ''properties''
             = Some (PDict [(''event'', PStr ''Flood Warning'')])"
    by simp
  from format_alert_on_features [where repr = sample_repr, OF h1]
    format_alert_on_features [where repr = sample_repr, OF h2]
  show ?thesis by (simp add: sample_flood_def)
qed

text \<open>
  Claim C5 as stated fails: on the JSON object \<^verbatim>\<open>{"properties": null}\<close> and on the JSON
  number 5, \<^verbatim>\<open>format_alert\<close> raises AttributeError.
\<close>

theorem format_alert_not_total:
  "format_alert sample_repr (PDict [(''properties'', PNone)]) = Inl AttributeError
   \<and> format_alert sample_repr (PInt 5) = Inl AttributeError"
  by (simp add: format_alert_def)

subsection \<open>\<^verbatim>\<open>get_forecast\<close>: reaching the forecast document\<close>

text \<open>
  Once the points response is an object with \<^verbatim>\<open>properties.forecast\<close>, the handler
  makes its second request, to that URL; once the second response is an object with
  \<^verbatim>\<open>properties.periods\<close> a list, it runs the loop on the first five periods.
\<close>

lemma get_forecast_point:
  assumes "make_nws_request (net 0) (PStr (points_url repr latitude longitude)) = PDict kvs"
    and "map_of kvs ''properties'' = Some (PDict props)"
    and "map_of props ''forecast'' = Some url"
  shows "get_forecast repr net latitude longitude =
     (if \<not> py_truthy (make_nws_request (net 1) url)
      then Inr (PStr ''Unable to fetch detailed forecast.'')
      else py_bind (py_getitem (make_nws_request (net 1) url) ''properties'') (\<lambda>forecast_properties.
           py_bind (py_getitem forecast_properties ''periods'') (\<lambda>periods.
           py_bind (py_getslice periods 5) (\<lambda>first_periods.
           py_bind (py_iter first_periods) (\<lambda>ps.
           forecast_loop repr ps [])))))"
proof -
  from assms(2) have "kvs \<noteq> []"
    by auto
  with assms show ?thesis
    by (simp add: get_forecast_def)
qed

lemma get_forecast_document:
  assumes "make_nws_request (net 0) (PStr (points_url repr latitude longitude)) = PDict kvs"
    and "map_of kvs ''properties'' = Some (PDict props)"
    and "map_of props ''forecast'' = Some url"
    and "make_nws_request (net 1) url = PDict fkvs"
    and "map_of fkvs ''properties'' = Some (PDict fprops)"
    and "map_of fprops ''periods'' = Some (PList periods)"
  shows "get_forecast repr net latitude longitude = forecast_loop repr (take 5 periods) []"
proof -
  from assms(5) have "fkvs \<noteq> []"
    by auto
  with assms(4-6) show ?thesis
    by (simp add: get_forecast_point [where net = net, OF assms(1-3)])
qed

lemma format_period_fields:
  assumes "map_of pkvs ''name'' = Some name"
    and "map_of pkvs ''temperature'' = Some temperature"
    and "map_of pkvs ''temperatureUnit'' = Some temperatureUnit"
    and "map_of pkvs ''windSpeed'' = Some windSpeed"
    and "map_of pkvs ''windDirection'' = Some windDirection"
    and "map_of pkvs ''detailedForecast'' = Some detailedForecast"
  shows "format_period repr (PDict pkvs) =
     Inr (period_template (py_str repr name) (py_str repr temperature) (py_str repr temperatureUnit)
            (py_str repr windSpeed) (py_str repr windDirection) (py_str repr detailedForecast)
          @ ''\<newline>'')"
  using assms by (simp add: format_period_def period_template_def)



lemma str_int_72: "str_int 72 = ''72''"
  by code_simp

lemma format_tonight:
  "format_period sample_repr sample_tonight
     = Inr (period_template ''Tonight'' ''72'' ''F'' ''5 mph'' ''NW'' ''Clear.'' @ ''\<newline>'')"
  by (simp add: format_period_def period_template_def sample_tonight_def str_int_72)

subsection \<open>\<^verbatim>\<open>get_forecast\<close>: the fixed answers and the lookup error\<close>

text \<open>
  Claim C6. When the points fetch gives the absent result, \<^verbatim>\<open>get_forecast\<close> returns
  exactly \<^verbatim>\<open>Unable to fetch forecast data for this location.\<close> When the points fetch
  gives a forecast point (an object with \<^verbatim>\<open>properties.forecast\<close>), so that the forecast
  is requested, and that second fetch gives the absent result, it returns exactly
  \<^verbatim>\<open>Unable to fetch detailed forecast.\<close>
\<close>

theorem get_forecast_unable:
  "(make_nws_request (net 0) (PStr (points_url repr latitude longitude)) = PNone \<longrightarrow>
      get_forecast repr net latitude longitude
        = Inr (PStr ''Unable to fetch forecast data for this location.''))
   \<and> (make_nws_request (net 0) (PStr (points_url repr latitude longitude)) = PDict kvs
        \<and> map_of kvs ''properties'' = Some (PDict props)
        \<and> map_of props ''forecast'' = Some url
        \<and> make_nws_request (net 1) url = PNone \<longrightarrow>
      get_forecast repr net latitude longitude = Inr (PStr ''Unable to fetch detailed forecast.''))"
proof (intro conjI impI)
  assume "make_nws_request (net 0) (PStr (points_url repr latitude longitude)) = PNone"
  then show "get_forecast repr net latitude longitude
      = Inr (PStr ''Unable to fetch forecast data for this location.'')"
    by (simp add: get_forecast_def)
next
  assume h: "make_nws_request (net 0) (PStr (points_url repr latitude longitude)) = PDict kvs
        \<and> map_of kvs ''properties'' = Some (PDict props)
        \<and> map_of props ''forecast'' = Some url
        \<and> make_nws_request (net 1) url = PNone"
  then have "get_forecast repr net latitude longitude =
     (if \<not> py_truthy (make_nws_request (net 1) url)
      then Inr (PStr ''Unable to fetch detailed forecast.'')
      else py_bind (py_getitem (make_nws_request (net 1) url) ''properties'') (\<lambda>forecast_properties.
           py_bind (py_getitem forecast_properties ''periods'') (\<lambda>periods.
           py_bind (py_getslice periods 5) (\<lambda>first_periods.
           py_bind (py_iter first_periods) (\<lambda>ps.
           forecast_loop repr ps [])))))"
    by (intro get_forecast_point [where net = net and kvs = kvs and props = props]) simp_all
  with h show "get_forecast repr net latitude longitude = Inr (PStr ''Unable to fetch detailed forecast.'')"
    by simp
qed

text \<open>
  A network that is down, and one where the forecast URL answers 503.
\<close>

theorem get_forecast_unable_witness:
  "make_nws_request (scripted (RequestFailed ConnectFailure) (RequestFailed ConnectFailure) 0)
      (PStr (points_url sample_repr 0 0)) = PNone
   \<and> get_forecast sample_repr (scripted (RequestFailed ConnectFailure) (RequestFailed ConnectFailure)) 0 0
       = Inr (PStr ''Unable to fetch forecast data for this location.'')
   \<and> make_nws_request (scripted (Responded 200 (Some sample_point)) (Responded 503 None) 0)
      (PStr (points_url sample_repr 0 0)) = sample_point
   \<and> make_nws_request (scripted (Responded 200 (Some sample_point)) (Responded 503 None) 1)
      (PStr ''https://api.weather.gov/gridpoints/TOP/31,80/forecast'') = PNone
   \<and> get_forecast sample_repr (scripted (Responded 200 (Some sample_point)) (Responded 503 None)) 0 0
       = Inr (PStr ''Unable to fetch detailed forecast.'')"
proof -
  let ?down = "scripted (RequestFailed ConnectFailure) (RequestFailed ConnectFailure)"
  let ?net = "scripted (Responded 200 (Some sample_point)) (Responded 503 None)"
  let ?url = "PStr ''https://api.weather.gov/gridpoints/TOP/31,80/forecast''"
  have h0: "make_nws_request (?down 0) (PStr (points_url sample_repr 0 0)) = PNone"
    by (simp add: make_nws_request_def)
  have h1: "make_nws_request (?net 0) (PStr (points_url sample_repr 0 0))
      = PDict [(''properties'', PDict [(''forecast'', ?url)])]"
    by (simp add: make_nws_request_def sample_point_def)
  have h2: "map_of [(''properties'', PDict [(''forecast'', ?url)])] ''properties''
      = Some (PDict [(''forecast'', ?url)])"
    by simp
  have h3: "map_of [(''forecast'', ?url)] ''forecast'' = Some ?url"
    by simp
  have h4: "make_nws_request (?net 1) ?url = PNone"
    by (simp add: make_nws_request_def)
  from get_forecast_unable [where net = ?down and repr = sample_repr and latitude = 0 and longitude = 0]
    get_forecast_unable [where net = ?net and repr = sample_repr and latitude = 0 and longitude = 0
      and kvs = "[(''properties'', PDict [(''forecast'', ?url)])]"
      and props = "[(''forecast'', ?url)]" and url = ?url]
    h0 h1 h2 h3 h4
  show ?thesis
    by (simp add: sample_point_def)
qed




subsection \<open>\<^verbatim>\<open>get_forecast\<close>: the loop\<close>



text \<open>
  Claim C9, as the code has it. A period that has the six fields is rendered by the
  loop of \<^verbatim>\<open>get_forecast\<close> as the template filled with the texts of the fields,
  followed by one newline character (the \<^verbatim>\<open>\n\<close> that ends line 114).
\<close>

theorem forecast_loop_template:
  assumes "map_of pkvs ''name'' = Some name"
    and "map_of pkvs ''temperature'' = Some temperature"
    and "map_of pkvs ''temperatureUnit'' = Some temperatureUnit"
    and "map_of pkvs ''windSpeed'' = Some windSpeed"
    and "map_of pkvs ''windDirection'' = Some windDirection"
    and "map_of pkvs ''detailedForecast'' = Some detailedForecast"
  shows "format_period repr (PDict pkvs) =
     Inr (period_template (py_str repr name) (py_str repr temperature)
            (py_str repr temperatureUnit) (py_str repr windSpeed)
            (py_str repr windDirection) (py_str repr detailedForecast)
          @ ''\<newline>'')
   \<and> forecast_loop repr (PDict pkvs # rest) [] =
     Inr (PStr (period_template (py_str repr name) (py_str repr temperature)
                  (py_str repr temperatureUnit) (py_str repr windSpeed)
                  (py_str repr windDirection) (py_str repr detailedForecast)
                @ ''\<newline>''))"
  by (simp add: format_period_fields [OF assms])

text \<open>
  The period \<^verbatim>\<open>Tonight\<close>.
\<close>

theorem forecast_loop_template_witness:
  "map_of [(''name'', PStr ''Tonight''), (''temperature'', PInt 72),
            (''temperatureUnit'', PStr ''F''), (''windSpeed'', PStr ''5 mph''),
            (''windDirection'', PStr ''NW''), (''detailedForecast'', PStr ''Clear.'')] ''name''
      = Some (PStr ''Tonight'')
   \<and> forecast_loop sample_repr [sample_tonight, sample_friday] []
      = Inr (PStr (period_template ''Tonight'' ''72'' ''F'' ''5 mph'' ''NW'' ''Clear.'' @ ''\<newline>''))"
proof -
  let ?kvs = "[(''name'', PStr ''Tonight''), (''temperature'', PInt 72),
            (''temperatureUnit'', PStr ''F''), (''windSpeed'', PStr ''5 mph''),
            (''windDirection'', PStr ''NW''), (''detailedForecast'', PStr ''Clear.'')]"
  have h1: "map_of ?kvs ''name'' = Some (PStr ''Tonight'')"
    and h2: "map_of ?kvs ''temperature'' = Some (PInt 72)"
    and h3: "map_of ?kvs ''temperatureUnit'' = Some (PStr ''F'')"
    and h4: "map_of ?kvs ''windSpeed'' = Some (PStr ''5 mph'')"
    and h5: "map_of ?kvs ''windDirection'' = Some (PStr ''NW'')"
    and h6: "map_of ?kvs ''detailedForecast'' = Some (PStr ''Clear.'')"
    by simp_all
  from forecast_loop_template [where repr = sample_repr and rest = "[sample_friday]", OF h1 h2 h3 h4 h5 h6] h1
  show ?thesis
    by (simp add: sample_tonight_def str_int_72)
qed

text \<open>
  Claim C9 as stated fails: the rendering of \<^verbatim>\<open>Tonight\<close> is the template and one more
  character, the final newline.
\<close>

theorem format_period_trailing_newline:
  "format_period sample_repr sample_tonight
     = Inr (period_template ''Tonight'' ''72'' ''F'' ''5 mph'' ''NW'' ''Clear.'' @ ''\<newline>'')
   \<and> format_period sample_repr sample_tonight
     \<noteq> Inr (period_template ''Tonight'' ''72'' ''F'' ''5 mph'' ''NW'' ''Clear.'')"
  by (simp add: format_tonight)

text \<open>
  Claim C10. When both fetches succeed and \<^verbatim>\<open>properties.periods\<close> is the empty list,
  \<^verbatim>\<open>get_forecast\<close> returns no string: the body of the loop never runs, the function
  runs off its end, and the result is \<^verbatim>\<open>None\<close>.
\<close>

theorem get_forecast_no_periods:
  assumes "make_nws_request (net 0) (PStr (points_url repr latitude longitude)) = PDict kvs"
    and "map_of kvs ''properties'' = Some (PDict props)"
    and "map_of props ''forecast'' = Some url"
    and "make_nws_request (net 1) url = PDict fkvs"
    and "map_of fkvs ''properties'' = Some (PDict fprops)"
    and "map_of fprops ''periods'' = Some (PList [])"
  shows "get_forecast repr net latitude longitude = Inr PNone"
proof -
  have "get_forecast repr net latitude longitude = forecast_loop repr (take 5 []) []"
    by (rule get_forecast_document [where net = net, OF assms])
  then show ?thesis
    by simp
qed

text \<open>
  A forecast document with no period.
\<close>

theorem get_forecast_no_periods_witness:
  "make_nws_request
      (scripted (Responded 200 (Some sample_point)) (Responded 200 (Some (sample_forecast []))) 0)
      (PStr (points_url sample_repr 0 0)) = sample_point
   \<and> make_nws_request
      (scripted (Responded 200 (Some sample_point)) (Responded 200 (Some (sample_forecast []))) 1)
      (PStr ''https://api.weather.gov/gridpoints/TOP/31,80/forecast'') = sample_forecast []
   \<and> get_forecast sample_repr
        (scripted (Responded 200 (Some sample_point)) (Responded 200 (Some (sample_forecast [])))) 0 0
       = Inr PNone"
proof -
  let ?net = "scripted (Responded 200 (Some sample_point)) (Responded 200 (Some (sample_forecast [])))"
  let ?url = "PStr ''https://api.weather.gov/gridpoints/TOP/31,80/forecast''"
  have h1: "make_nws_request (?net 0) (PStr (points_url sample_repr 0 0))
      = PDict [(''properties'', PDict [(''forecast'', ?url)])]"
    by (simp add: make_nws_request_def sample_point_def)
  have h2: "map_of [(''properties'', PDict [(''forecast'', ?url)])] ''properties''
      = Some (PDict [(''forecast'', ?url)])"
    by simp
  have h3: "map_of [(''forecast'', ?url)] ''forecast'' = Some ?url"
    by simp
  have h4: "make_nws_request (?net 1) ?url = PDict [(''properties'', PDict [(''periods'', PList [])])]"
    by (simp add: make_nws_request_def sample_forecast_def)
  have h5: "map_of [(''properties'', PDict [(''periods'', PList [])])] ''properties''
      = Some (PDict [(''periods'', PList [])])"
    by simp
  have h6: "map_of [(''periods'', PList [])] ''periods'' = Some (PList [])"
    by simp
  from get_forecast_no_periods [where net = ?net and repr = sample_repr, OF h1 h2 h3 h4 h5 h6] h1 h4
  show ?thesis
    by (simp add: sample_point_def sample_forecast_def)
qed

subsection \<open>Failures of the network\<close>

text \<open>
  Claim C7. A transport error, a status that is not 2xx and a body that does not decode
  all make \<^verbatim>\<open>make_nws_request\<close> return \<^verbatim>\<open>None\<close>; and a handler whose request fails in
  one of these ways raises nothing: \<^verbatim>\<open>get_alerts\<close> and \<^verbatim>\<open>get_forecast\<close> return their
  fixed message, for the first request and, when \<^verbatim>\<open>get_forecast\<close> makes it, for the
  second.
\<close>

theorem fetch_failures_absent:
  "(fetch_failed (client_get url) \<longrightarrow> make_nws_request client_get url = PNone)
   \<and> (fetch_failed (net 0 (PStr (alerts_url state))) \<longrightarrow>
        get_alerts repr net state = Inr ''Unable to fetch alerts or no alerts found.'')
   \<and> (fetch_failed (net 0 (PStr (points_url repr latitude longitude))) \<longrightarrow>
        get_forecast repr net latitude longitude
          = Inr (PStr ''Unable to fetch forecast data for this location.''))
   \<and> (make_nws_request (net 0) (PStr (points_url repr latitude longitude)) = PDict kvs
        \<and> map_of kvs ''properties'' = Some (PDict props)
        \<and> map_of props ''forecast'' = Some forecast_url
        \<and> fetch_failed (net 1 forecast_url) \<longrightarrow>
        get_forecast repr net latitude longitude = Inr (PStr ''Unable to fetch detailed forecast.''))"
proof (intro conjI impI)
  assume "fetch_failed (client_get url)"
  then show "make_nws_request client_get url = PNone"
    by (rule make_nws_request_failed)
next
  assume "fetch_failed (net 0 (PStr (alerts_url state)))"
  then have "make_nws_request (net 0) (PStr (alerts_url state)) = PNone"
    by (rule make_nws_request_failed)
  then show "get_alerts repr net state = Inr ''Unable to fetch alerts or no alerts found.''"
    by (simp add: get_alerts_def)
next
  assume "fetch_failed (net 0 (PStr (points_url repr latitude longitude)))"
  then have "make_nws_request (net 0) (PStr (points_url repr latitude longitude)) = PNone"
    by (rule make_nws_request_failed)
  then show "get_forecast repr net latitude longitude
      = Inr (PStr ''Unable to fetch forecast data for this location.'')"
    by (simp add: get_forecast_def)
next
  assume h: "make_nws_request (net 0) (PStr (points_url repr latitude longitude)) = PDict kvs
        \<and> map_of kvs ''properties'' = Some (PDict props)
        \<and> map_of props ''forecast'' = Some forecast_url
        \<and> fetch_failed (net 1 forecast_url)"
  then have absent: "make_nws_request (net 1) forecast_url = PNone"
    by (simp add: make_nws_request_failed)
  from h have "get_forecast repr net latitude longitude =
     (if \<not> py_truthy (make_nws_request (net 1) forecast_url)
      then Inr (PStr ''Unable to fetch detailed forecast.'')
      else py_bind (py_getitem (make_nws_request (net 1) forecast_url) ''properties'') (\<lambda>forecast_properties.
           py_bind (py_getitem forecast_properties ''periods'') (\<lambda>periods.
           py_bind (py_getslice periods 5) (\<lambda>first_periods.
           py_bind (py_iter first_periods) (\<lambda>ps.
           forecast_loop repr ps [])))))"
    by (intro get_forecast_point [where net = net and kvs = kvs and props = props]) simp_all
  with absent show "get_forecast repr net latitude longitude = Inr (PStr ''Unable to fetch detailed forecast.'')"
    by simp
qed

text \<open>
  The three transport errors, a 404 and an undecodable body; a network whose first
  answer is a 404, and one whose forecast URL answers with an undecodable body.
\<close>

theorem fetch_failures_absent_witness:
  "fetch_failed (RequestFailed DnsFailure) \<and> fetch_failed (RequestFailed ConnectFailure)
   \<and> fetch_failed (RequestFailed Timeout) \<and> fetch_failed (Responded 404 (Some (PDict [])))
   \<and> fetch_failed (Responded 200 None)
   \<and> make_nws_request (scripted (Responded 404 (Some (PDict []))) (RequestFailed Timeout) 0)
        (PStr (alerts_url ''CA'')) = PNone
   \<and> get_alerts sample_repr (scripted (Responded 404 (Some (PDict []))) (RequestFailed Timeout)) ''CA''
        = Inr ''Unable to fetch alerts or no alerts found.''
   \<and> get_forecast sample_repr (scripted (Responded 404 (Some (PDict []))) (RequestFailed Timeout)) 0 0
        = Inr (PStr ''Unable to fetch forecast data for this location.'')
   \<and> make_nws_request (scripted (Responded 200 (Some sample_point)) (Responded 200 None) 0)
        (PStr (points_url sample_repr 0 0)) = sample_point
   \<and> get_forecast sample_repr (scripted (Responded 200 (Some sample_point)) (Responded 200 None)) 0 0
        = Inr (PStr ''Unable to fetch detailed forecast.'')"
proof -
  let ?bad = "scripted (Responded 404 (Some (PDict []))) (RequestFailed Timeout)"
  let ?net = "scripted (Responded 200 (Some sample_point)) (Responded 200 None)"
  let ?url = "PStr ''https://api.weather.gov/gridpoints/TOP/31,80/forecast''"
  have f: "fetch_failed (RequestFailed DnsFailure)" "fetch_failed (RequestFailed ConnectFailure)"
    "fetch_failed (RequestFailed Timeout)" "fetch_failed (Responded 404 (Some (PDict [])))"
    "fetch_failed (Responded 200 None)"
    by (simp_all add: fetch_failed_def)
  have b1: "fetch_failed (?bad 0 (PStr (alerts_url ''CA'')))"
    by (simp add: fetch_failed_def)
  have b2: "fetch_failed (?bad 0 (PStr (points_url sample_repr 0 0)))"
    by (simp add: fetch_failed_def)
  have h1: "make_nws_request (?net 0) (PStr (points_url sample_repr 0 0))
      = PDict [(''properties'', PDict [(''forecast'', ?url)])]"
    by (simp add: make_nws_request_def sample_point_def)
  have h2: "map_of [(''properties'', PDict [(''forecast'', ?url)])] ''properties''
      = Some (PDict [(''forecast'', ?url)])"
    by simp
  have h3: "map_of [(''forecast'', ?url)] ''forecast'' = Some ?url"
    by simp
  have h4: "fetch_failed (?net 1 ?url)"
    by (simp add: fetch_failed_def)
  from fetch_failures_absent [where client_get = "?bad 0" and url = "PStr (alerts_url ''CA'')"
      and net = ?bad and state = "''CA''" and repr = sample_repr and latitude = 0 and longitude = 0]
    fetch_failures_absent [where net = ?net and repr = sample_repr and latitude = 0 and longitude = 0
      and kvs = "[(''properties'', PDict [(''forecast'', ?url)])]"
      and props = "[(''forecast'', ?url)]" and forecast_url = ?url]
    f b1 b2 h1 h2 h3 h4
  show ?thesis
    by (simp add: sample_point_def)
qed

end
